theory Spec2Isabelle
  imports Main
begin

section \<open>Python values, strings and dictionaries\<close>

text \<open>
  A Python \<open>str\<close> is a \<open>string\<close>: one \<open>char\<close> per character, the character with
  code point \<open>n < 256\<close> being \<open>char_of n\<close>. Property values are the scalars the seed
  data and the snapshot format use: strings and integers. The value Python calls
  \<open>None\<close>, where a \<open>dict.get\<close> finds no key, is \<open>None\<close> of an option type.
\<close>

datatype pyval = PStr string | PInt int

fun str_nat :: "nat \<Rightarrow> string" where
  "str_nat n =
     (if n < 10 then [''0123456789'' ! n]
      else str_nat (n div 10) @ [''0123456789'' ! (n mod 10)])"

declare str_nat.simps [simp del]

definition str_int :: "int \<Rightarrow> string" where
  "str_int i = (if i < 0 then CHR ''-'' # str_nat (nat (- i)) else str_nat (nat i))"

text \<open>\<open>str(v)\<close>, as an f-string formats a value.\<close>

fun py_str :: "pyval \<Rightarrow> string" where
  "py_str (PStr s) = s"
| "py_str (PInt i) = str_int i"

text \<open>The truth value of a scalar in an \<open>if\<close>: the empty string and zero are false.\<close>

fun truthy :: "pyval \<Rightarrow> bool" where
  "truthy (PStr s) = (s \<noteq> [])"
| "truthy (PInt i) = (i \<noteq> 0)"

text \<open>
  A \<open>dict\<close> keeps its items in insertion order, and the order shows in every
  result built by iterating over \<open>items()\<close>: it is an association list.
  \<open>d[k] = v\<close> replaces the value of a key that is present, where it stands, and
  appends the item otherwise.
\<close>

type_synonym ('k, 'v) dict = "('k \<times> 'v) list"

definition dict_get :: "('k, 'v) dict \<Rightarrow> 'k \<Rightarrow> 'v option" where
  "dict_get d k = map_of d k"

definition dict_contains :: "('k, 'v) dict \<Rightarrow> 'k \<Rightarrow> bool" where
  "dict_contains d k = (dict_get d k \<noteq> None)"

fun dict_set :: "('k, 'v) dict \<Rightarrow> 'k \<Rightarrow> 'v \<Rightarrow> ('k, 'v) dict" where
  "dict_set [] k v = [(k, v)]"
| "dict_set ((k', v') # d) k v =
     (if k' = k then (k, v) # d else (k', v') # dict_set d k v)"

text \<open>The display \<open>{**d, **e}\<close>: the items of \<open>e\<close> are stored into \<open>d\<close> one by one.\<close>

definition dict_merge :: "('k, 'v) dict \<Rightarrow> ('k, 'v) dict \<Rightarrow> ('k, 'v) dict" where
  "dict_merge d e = foldl (\<lambda>acc (k, v). dict_set acc k v) d e"

definition wf_dict :: "('k, 'v) dict \<Rightarrow> bool" where
  "wf_dict d = distinct (map fst d)"

section \<open>The graph store (graph_database.py)\<close>

record node =
  label :: string
  properties :: "(string, pyval) dict"

record relationship =
  rel_from :: pyval
  rel_to :: pyval
  rel_type :: string
  rel_properties :: "(string, pyval) dict"

record store =
  nodes :: "(pyval, node) dict"
  relationships :: "relationship list"
  node_counter :: nat

datatype error = ValueError string | AttributeError string

definition init :: store where
  "init = \<lparr>nodes = [], relationships = [], node_counter = 0\<rparr>"

text \<open>
  \<open>create_node\<close> returns the id and the store after the call. The id is the
  value under \<open>'id'\<close> of the properties when there is one, whatever scalar it is.
\<close>

definition create_node :: "store \<Rightarrow> string \<Rightarrow> (string, pyval) dict \<Rightarrow> pyval \<times> store" where
  "create_node s lbl props =
     (let node_id = (case dict_get props ''id'' of
                       Some v \<Rightarrow> v
                     | None \<Rightarrow> PStr (lbl @ ''_'' @ str_nat (node_counter s)));
          s1 = s\<lparr>node_counter := node_counter s + 1\<rparr>
      in (node_id,
          s1\<lparr>nodes := dict_set (nodes s1) node_id \<lparr>label = lbl, properties = props\<rparr>\<rparr>))"

text \<open>
  \<open>create_relationship\<close> raises before it touches the store: the result is the
  error or \<open>()\<close>, with the store as the call leaves it.
\<close>

definition create_relationship ::
  "store \<Rightarrow> pyval \<Rightarrow> pyval \<Rightarrow> string \<Rightarrow> (string, pyval) dict option \<Rightarrow> (error + unit) \<times> store" where
  "create_relationship s from_id to_id rtype props =
     (if \<not> dict_contains (nodes s) from_id \<or> \<not> dict_contains (nodes s) to_id
      then (Inl (ValueError (''Node not found: '' @ py_str from_id @ '' or '' @ py_str to_id)), s)
      else (Inr (),
            s\<lparr>relationships := relationships s @
               [\<lparr>rel_from = from_id, rel_to = to_id, rel_type = rtype,
                 rel_properties = (case props of
                                     None \<Rightarrow> []
                                   | Some d \<Rightarrow> if d = [] then [] else d)\<rparr>]\<rparr>))"

definition clear :: "store \<Rightarrow> store" where
  "clear s = \<lparr>nodes = [], relationships = [], node_counter = 0\<rparr>"

text \<open>
  \<open>get_all_nodes(label)\<close>: the test \<open>if label:\<close> is false for \<open>None\<close> and for the
  empty string. A record \<open>{'id': nid, **properties}\<close> is a dict display.
\<close>

definition get_all_nodes :: "store \<Rightarrow> string option \<Rightarrow> (string, pyval) dict list" where
  "get_all_nodes s lbl =
     (case lbl of
        Some l \<Rightarrow>
          if l \<noteq> [] then
            map (\<lambda>(nid, n). dict_merge [(''id'', nid)] (properties n))
              (filter (\<lambda>(nid, n). label n = l) (nodes s))
          else
            map (\<lambda>(nid, n). dict_merge [(''id'', nid), (''label'', PStr (label n))] (properties n))
              (nodes s)
      | None \<Rightarrow>
          map (\<lambda>(nid, n). dict_merge [(''id'', nid), (''label'', PStr (label n))] (properties n))
            (nodes s))"

definition get_all_relationships :: "store \<Rightarrow> string option \<Rightarrow> relationship list" where
  "get_all_relationships s rtype =
     (case rtype of
        Some t \<Rightarrow> if t \<noteq> [] then filter (\<lambda>r. rel_type r = t) (relationships s)
                  else relationships s
      | None \<Rightarrow> relationships s)"

section \<open>The provenance trace (graph_rag_engine.py)\<close>

text \<open>
  The trace is a dict of five fixed keys: a record. A material entry is the copy of the
  material's properties with the list of its suppliers stored under \<open>'suppliers'\<close>, so
  its values are scalars or that list. The function returns the dict
  \<open>{"error": message}\<close> or the trace.
\<close>

datatype mval = Scalar pyval | SupplierList "(string, pyval) dict list"

record trace =
  product :: "(string, pyval) dict"
  factory :: "(string, pyval) dict option"
  materials :: "(string, mval) dict list"
  suppliers :: "(string, pyval) dict list"
  certifications :: "(string, pyval) dict list"

datatype trace_result = ErrorRecord string | TraceRecord trace

text \<open>The inner loop over \<open>cert_rel\<close>: what it appends to \<open>trace['certifications']\<close>.\<close>

fun cert_loop :: "store \<Rightarrow> pyval \<Rightarrow> relationship list \<Rightarrow> (string, pyval) dict list" where
  "cert_loop s fid [] = []"
| "cert_loop s fid (cert_rel # rels) =
     (if rel_from cert_rel = fid \<and> rel_type cert_rel = ''HAS_CERTIFICATION'' then
        (case dict_get (nodes s) (rel_to cert_rel) of
           Some cert_node \<Rightarrow> properties cert_node # cert_loop s fid rels
         | None \<Rightarrow> cert_loop s fid rels)
      else cert_loop s fid rels)"

text \<open>The first loop over the relationships: it has no \<open>break\<close>.\<close>

fun factory_loop :: "store \<Rightarrow> pyval \<Rightarrow> relationship list \<Rightarrow> trace \<Rightarrow> trace" where
  "factory_loop s product_id [] t = t"
| "factory_loop s product_id (rel # rels) t =
     (if rel_to rel = product_id \<and> rel_type rel = ''MANUFACTURES'' then
        (case dict_get (nodes s) (rel_from rel) of
           Some factory_node \<Rightarrow>
             factory_loop s product_id rels
               (t\<lparr>factory := Some (properties factory_node),
                  certifications :=
                    certifications t @ cert_loop s (rel_from rel) (relationships s)\<rparr>)
         | None \<Rightarrow> factory_loop s product_id rels t)
      else factory_loop s product_id rels t)"

text \<open>The second loop: \<open>factory_id\<close> is taken at the first match, then \<open>break\<close>.\<close>

fun find_factory_id :: "pyval \<Rightarrow> relationship list \<Rightarrow> pyval option" where
  "find_factory_id product_id [] = None"
| "find_factory_id product_id (rel # rels) =
     (if rel_to rel = product_id \<and> rel_type rel = ''MANUFACTURES'' then Some (rel_from rel)
      else find_factory_id product_id rels)"

fun supplier_loop :: "store \<Rightarrow> pyval \<Rightarrow> relationship list \<Rightarrow> (string, pyval) dict list" where
  "supplier_loop s mid [] = []"
| "supplier_loop s mid (sup_rel # rels) =
     (if rel_to sup_rel = mid \<and> rel_type sup_rel = ''PROVIDES'' then
        (case dict_get (nodes s) (rel_from sup_rel) of
           Some supplier_node \<Rightarrow> properties supplier_node # supplier_loop s mid rels
         | None \<Rightarrow> supplier_loop s mid rels)
      else supplier_loop s mid rels)"

fun material_loop :: "store \<Rightarrow> pyval \<Rightarrow> relationship list \<Rightarrow> trace \<Rightarrow> trace" where
  "material_loop s factory_id [] t = t"
| "material_loop s factory_id (rel # rels) t =
     (if rel_to rel = factory_id \<and> rel_type rel = ''SUPPLIED_TO'' then
        (case dict_get (nodes s) (rel_from rel) of
           Some material_node \<Rightarrow>
             (let material_suppliers = supplier_loop s (rel_from rel) (relationships s);
                  material_info =
                    dict_set (map (\<lambda>(k, v). (k, Scalar v)) (properties material_node))
                      ''suppliers'' (SupplierList material_suppliers)
              in material_loop s factory_id rels
                   (t\<lparr>materials := materials t @ [material_info],
                      suppliers := suppliers t @ material_suppliers\<rparr>))
         | None \<Rightarrow> material_loop s factory_id rels t)
      else material_loop s factory_id rels t)"

text \<open>The last loop: \<open>seen\<close> holds the values of \<open>supplier.get('id')\<close> met so far.\<close>

fun unique_suppliers ::
  "pyval option list \<Rightarrow> (string, pyval) dict list \<Rightarrow> (string, pyval) dict list" where
  "unique_suppliers seen [] = []"
| "unique_suppliers seen (supplier # rest) =
     (let supplier_id = dict_get supplier ''id'' in
      if supplier_id \<notin> set seen then supplier # unique_suppliers (supplier_id # seen) rest
      else unique_suppliers seen rest)"

definition trace_supply_chain :: "store \<Rightarrow> pyval \<Rightarrow> trace_result" where
  "trace_supply_chain s product_id =
     (case dict_get (nodes s) product_id of
        None \<Rightarrow> ErrorRecord (''Product '' @ py_str product_id @ '' not found'')
      | Some product_node \<Rightarrow>
          (let t0 = \<lparr>product = properties product_node, factory = None, materials = [],
                     suppliers = [], certifications = []\<rparr>;
               t1 = factory_loop s product_id (relationships s) t0;
               t2 = (if (case factory t1 of Some f \<Rightarrow> f \<noteq> [] | None \<Rightarrow> False) then
                       (case find_factory_id product_id (relationships s) of
                          Some factory_id \<Rightarrow>
                            if truthy factory_id
                            then material_loop s factory_id (relationships s) t1
                            else t1
                        | None \<Rightarrow> t1)
                     else t1)
           in TraceRecord (t2\<lparr>suppliers := unique_suppliers [] (suppliers t2)\<rparr>)))"

text \<open>The supplier list of a material entry of the trace.\<close>

definition material_suppliers :: "(string, mval) dict \<Rightarrow> (string, pyval) dict list" where
  "material_suppliers m =
     (case dict_get m ''suppliers'' of Some (SupplierList l) \<Rightarrow> l | _ \<Rightarrow> [])"

text \<open>
  What the specification asks of the aggregate, in its own words: of a list, keep the
  entries whose key has not occurred at an earlier position, in their order.
\<close>

definition first_occurrences_spec :: "('a \<Rightarrow> 'b) \<Rightarrow> 'a list \<Rightarrow> 'a list" where
  "first_occurrences_spec key xs =
     map (\<lambda>i. xs ! i) (filter (\<lambda>i. key (xs ! i) \<notin> key ` set (take i xs)) [0..<length xs])"

text \<open>Fixtures: stores as the bulk load of populate_data.py builds them.\<close>

definition mk_node :: "string \<Rightarrow> string \<Rightarrow> string \<Rightarrow> pyval \<times> node" where
  "mk_node lbl nid name =
     (PStr nid, \<lparr>label = lbl, properties = [(''id'', PStr nid), (''name'', PStr name)]\<rparr>)"

definition edge :: "string \<Rightarrow> string \<Rightarrow> string \<Rightarrow> relationship" where
  "edge f ty t = \<lparr>rel_from = PStr f, rel_to = PStr t, rel_type = ty, rel_properties = []\<rparr>"

definition shared_supplier :: store where
  "shared_supplier =
     \<lparr>nodes =
        [mk_node ''Supplier'' ''SUP001'' ''Tuscany Leather'',
         mk_node ''Material'' ''MAT001'' ''Calf Leather'',
         mk_node ''Material'' ''MAT002'' ''Lamb Leather'',
         mk_node ''Factory'' ''FAC001'' ''Milan Atelier'',
         mk_node ''Certification'' ''CERT001'' ''ISO 9001'',
         mk_node ''Certification'' ''CERT002'' ''ISO 14001'',
         mk_node ''Product'' ''PROD001'' ''Handbag'',
         mk_node ''Product'' ''PROD002'' ''Wallet''],
      relationships =
        [edge ''SUP001'' ''PROVIDES'' ''MAT001'',
         edge ''SUP001'' ''PROVIDES'' ''MAT002'',
         edge ''MAT001'' ''SUPPLIED_TO'' ''FAC001'',
         edge ''MAT002'' ''SUPPLIED_TO'' ''FAC001'',
         edge ''FAC001'' ''HAS_CERTIFICATION'' ''CERT001'',
         edge ''FAC001'' ''HAS_CERTIFICATION'' ''CERT002'',
         edge ''FAC001'' ''MANUFACTURES'' ''PROD001''],
      node_counter = 8\<rparr>"

definition two_factories :: store where
  "two_factories =
     \<lparr>nodes =
        [mk_node ''Material'' ''MAT001'' ''Calf Leather'',
         mk_node ''Material'' ''MAT002'' ''Silk'',
         mk_node ''Factory'' ''FAC001'' ''Milan Atelier'',
         mk_node ''Factory'' ''FAC002'' ''Como Works'',
         mk_node ''Certification'' ''CERT001'' ''ISO 9001'',
         mk_node ''Certification'' ''CERT002'' ''ISO 14001'',
         mk_node ''Product'' ''PROD001'' ''Handbag''],
      relationships =
        [edge ''MAT001'' ''SUPPLIED_TO'' ''FAC001'',
         edge ''MAT002'' ''SUPPLIED_TO'' ''FAC002'',
         edge ''FAC001'' ''HAS_CERTIFICATION'' ''CERT001'',
         edge ''FAC002'' ''HAS_CERTIFICATION'' ''CERT002'',
         edge ''FAC001'' ''MANUFACTURES'' ''PROD001'',
         edge ''FAC002'' ''MANUFACTURES'' ''PROD001''],
      node_counter = 7\<rparr>"

text \<open>The store of the module's own self-test: one supplier, one material.\<close>

definition demo_nodes :: store where
  "demo_nodes =
     snd (create_node
       (snd (create_node init ''Supplier''
          [(''id'', PStr ''SUP001''), (''name'', PStr ''Tuscany Leather Co.''),
           (''location'', PStr ''Florence, Italy'')]))
       ''Material''
       [(''id'', PStr ''MAT001''), (''name'', PStr ''Premium Calf Leather''),
        (''type'', PStr ''Leather'')])"

definition shared_supplier_trace :: trace where
  "shared_supplier_trace =
     \<lparr>product = [(''id'', PStr ''PROD001''), (''name'', PStr ''Handbag'')],
      factory = Some [(''id'', PStr ''FAC001''), (''name'', PStr ''Milan Atelier'')],
      materials =
        [[(''id'', Scalar (PStr ''MAT001'')), (''name'', Scalar (PStr ''Calf Leather'')),
          (''suppliers'',
           SupplierList [[(''id'', PStr ''SUP001''), (''name'', PStr ''Tuscany Leather'')]])],
         [(''id'', Scalar (PStr ''MAT002'')), (''name'', Scalar (PStr ''Lamb Leather'')),
          (''suppliers'',
           SupplierList [[(''id'', PStr ''SUP001''), (''name'', PStr ''Tuscany Leather'')]])]],
      suppliers = [[(''id'', PStr ''SUP001''), (''name'', PStr ''Tuscany Leather'')]],
      certifications =
        [[(''id'', PStr ''CERT001''), (''name'', PStr ''ISO 9001'')],
         [(''id'', PStr ''CERT002''), (''name'', PStr ''ISO 14001'')]]\<rparr>"

text \<open>
  A store filled through \<open>create_node\<close> and \<open>create_relationship\<close> alone, as the bulk
  load does, whose two suppliers have no \<open>'id'\<close> among their properties: their node
  ids are the synthesised \<open>Supplier_0\<close> and \<open>Supplier_1\<close>.
\<close>

definition add_nodes :: "store \<Rightarrow> (string \<times> (string, pyval) dict) list \<Rightarrow> store" where
  "add_nodes s ns = foldl (\<lambda>s (lbl, props). snd (create_node s lbl props)) s ns"

definition add_relationships :: "store \<Rightarrow> (string \<times> string \<times> string) list \<Rightarrow> store" where
  "add_relationships s rs =
     foldl (\<lambda>s (f, ty, t). snd (create_relationship s (PStr f) (PStr t) ty None)) s rs"

definition unnamed_suppliers :: store where
  "unnamed_suppliers =
     add_relationships
       (add_nodes init
          [(''Supplier'', [(''name'', PStr ''Alpha'')]),
           (''Supplier'', [(''name'', PStr ''Beta'')]),
           (''Material'', [(''id'', PStr ''MAT001''), (''name'', PStr ''Calf Leather'')]),
           (''Material'', [(''id'', PStr ''MAT002''), (''name'', PStr ''Lamb Leather'')]),
           (''Factory'', [(''id'', PStr ''FAC001''), (''name'', PStr ''Milan Atelier'')]),
           (''Product'', [(''id'', PStr ''PROD001''), (''name'', PStr ''Handbag'')])])
       [(''Supplier_0'', ''PROVIDES'', ''MAT001''),
        (''Supplier_1'', ''PROVIDES'', ''MAT001''),
        (''Supplier_1'', ''PROVIDES'', ''MAT002''),
        (''MAT001'', ''SUPPLIED_TO'', ''FAC001''),
        (''MAT002'', ''SUPPLIED_TO'', ''FAC001''),
        (''FAC001'', ''MANUFACTURES'', ''PROD001'')]"

section \<open>Snapshots (export_to_json, import_from_json)\<close>
































section \<open>The pattern query engine (execute_cypher)\<close>

subsection \<open>String methods\<close>

text \<open>
  The character classes of \<open>str.isspace\<close> (also \<open>\s\<close> of the \<open>re\<close> module) and of
  \<open>\w\<close>, by code point, for the code points below 256.
\<close>

definition is_space :: "char \<Rightarrow> bool" where
  "is_space c = (of_char c \<in> {9, 10, 11, 12, 13, 28, 29, 30, 31, 32, 133, 160 :: nat})"

definition is_word :: "char \<Rightarrow> bool" where
  "is_word c =
     (let n = (of_char c :: nat) in
      (48 \<le> n \<and> n \<le> 57) \<or> (65 \<le> n \<and> n \<le> 90) \<or> n = 95 \<or> (97 \<le> n \<and> n \<le> 122) \<or>
      n = 170 \<or> n = 178 \<or> n = 179 \<or> n = 181 \<or> n = 185 \<or> n = 186 \<or>
      (188 \<le> n \<and> n \<le> 190) \<or> (192 \<le> n \<and> n \<le> 214) \<or> (216 \<le> n \<and> n \<le> 246) \<or>
      (248 \<le> n \<and> n \<le> 255))"

text \<open>
  \<open>str.upper\<close>, as the list of the code points of its result: the upper case of the
  micro sign (181) and of y with diaeresis (255) lies above 255, and that of the sharp s
  (223) is \<open>SS\<close>.
\<close>

definition upper_char :: "char \<Rightarrow> nat list" where
  "upper_char c =
     (let n = (of_char c :: nat) in
      if 97 \<le> n \<and> n \<le> 122 then [n - 32]
      else if n = 181 then [924]
      else if n = 223 then [83, 83]
      else if 224 \<le> n \<and> n \<le> 254 \<and> n \<noteq> 247 then [n - 32]
      else if n = 255 then [376]
      else [n])"

definition upper :: "string \<Rightarrow> nat list" where
  "upper s = concat (map upper_char s)"

definition startswith :: "nat list \<Rightarrow> string \<Rightarrow> bool" where
  "startswith s kw = (take (length kw) s = map of_char kw)"

definition strip :: "string \<Rightarrow> string" where
  "strip s = rev (dropWhile is_space (rev (dropWhile is_space s)))"

text \<open>\<open>s.strip(chars)\<close>.\<close>

definition strip_chars :: "string \<Rightarrow> string \<Rightarrow> string" where
  "strip_chars chars s =
     rev (dropWhile (\<lambda>c. c \<in> set chars) (rev (dropWhile (\<lambda>c. c \<in> set chars) s)))"

text \<open>\<open>s.split(sep)\<close> for a separator of one character.\<close>

fun split :: "char \<Rightarrow> string \<Rightarrow> string list" where
  "split sep [] = [[]]"
| "split sep (c # cs) =
     (if c = sep then [] # split sep cs
      else (case split sep cs of
              w # ws \<Rightarrow> (c # w) # ws
            | [] \<Rightarrow> [[c]]))"

text \<open>\<open>s.split(sep, 1)\<close> of a string that contains the separator.\<close>

definition split_once :: "char \<Rightarrow> string \<Rightarrow> string \<times> string" where
  "split_once sep s = (takeWhile (\<lambda>c. c \<noteq> sep) s, drop 1 (dropWhile (\<lambda>c. c \<noteq> sep) s))"

text \<open>The quotation marks that \<open>_parse_properties\<close> strips: \<open>"\<close> (34) and \<open>'\<close> (39).\<close>

definition parse_properties :: "string \<Rightarrow> (string, string) dict" where
  "parse_properties props_str =
     foldl (\<lambda>props pair.
              if CHR '':'' \<in> set pair then
                (let (key, value) = split_once CHR '':'' pair;
                     key = strip key;
                     value = strip_chars [CHR 0x27] (strip_chars [CHR 0x22] (strip value))
                 in dict_set props key value)
              else props)
       [] (split CHR '','' props_str)"

subsection \<open>The two regular expressions\<close>

text \<open>
  \<open>node_pattern = \((\w+):(\w+)(?:\s*\{([^}]+)\})?\)\<close>, matched at the head of a string:
  the three groups and the rest of the string behind the match. A greedy run is taken
  whole: the character behind a longest run is not of the run's class, and in this
  pattern what follows a run (\<open>:\<close>, \<open>{\<close>, \<open>}\<close>, \<open>)\<close> or white space behind a word) is never
  of the run's class either, so no shorter run lets the rest match. The optional group is
  tried first, and the pattern without it after that; a group that takes no part is the
  empty string in the result of \<open>findall\<close>.
\<close>

definition match_close :: "string \<Rightarrow> string option" where
  "match_close s = (case s of c # r \<Rightarrow> if c = CHR '')'' then Some r else None | [] \<Rightarrow> None)"

definition match_filter_group :: "string \<Rightarrow> (string \<times> string) option" where
  "match_filter_group s =
     (case dropWhile is_space s of
        c # r \<Rightarrow>
          if c = CHR ''{'' then
            (let props = takeWhile (\<lambda>x. x \<noteq> CHR ''}'') r;
                 r' = dropWhile (\<lambda>x. x \<noteq> CHR ''}'') r
             in if props = [] then None
                else (case r' of
                        c' # r'' \<Rightarrow> if c' = CHR ''}'' then Some (props, r'') else None
                      | [] \<Rightarrow> None))
          else None
      | [] \<Rightarrow> None)"

definition match_node_at :: "string \<Rightarrow> ((string \<times> string \<times> string) \<times> string) option" where
  "match_node_at s =
     (case s of
        c # r1 \<Rightarrow>
          if c = CHR ''('' then
            (let var = takeWhile is_word r1; r2 = dropWhile is_word r1 in
             if var = [] then None
             else (case r2 of
                     c2 # r3 \<Rightarrow>
                       if c2 = CHR '':'' then
                         (let lbl = takeWhile is_word r3; r4 = dropWhile is_word r3 in
                          if lbl = [] then None
                          else (case (case match_filter_group r4 of
                                        Some (props, r5) \<Rightarrow>
                                          map_option (Pair (var, lbl, props)) (match_close r5)
                                      | None \<Rightarrow> None) of
                                  Some m \<Rightarrow> Some m
                                | None \<Rightarrow> map_option (Pair (var, lbl, [])) (match_close r4)))
                       else None
                   | [] \<Rightarrow> None))
          else None
      | [] \<Rightarrow> None)"

text \<open>\<open>rel_pattern = -\[:(\w+)\]->\<close>, matched at the head of a string.\<close>

definition match_rel_at :: "string \<Rightarrow> (string \<times> string) option" where
  "match_rel_at s =
     (case s of
        c1 # c2 # c3 # r \<Rightarrow>
          if c1 = CHR ''-'' \<and> c2 = CHR ''['' \<and> c3 = CHR '':'' then
            (let ty = takeWhile is_word r in
             if ty = [] then None
             else (case dropWhile is_word r of
                     d1 # d2 # d3 # r' \<Rightarrow>
                       if d1 = CHR '']'' \<and> d2 = CHR ''-'' \<and> d3 = CHR ''>'' then Some (ty, r')
                       else None
                   | _ \<Rightarrow> None))
          else None
      | _ \<Rightarrow> None)"

lemma match_filter_group_length:
  "match_filter_group s = Some (p, r) \<Longrightarrow> length r < length s"
proof -
  assume m: "match_filter_group s = Some (p, r)"
  then obtain a where a: "dropWhile is_space s = CHR ''{'' # a"
    by (auto simp: match_filter_group_def split: list.splits if_splits)
  with m have "dropWhile (\<lambda>x. x \<noteq> CHR ''}'') a = CHR ''}'' # r"
    by (auto simp: match_filter_group_def Let_def split: list.splits if_splits)
  then have "length r < length a"
    using length_dropWhile_le [of "\<lambda>x. x \<noteq> CHR ''}''" a] by simp
  moreover have "length a < length s"
    using a length_dropWhile_le [of is_space s] by simp
  ultimately show ?thesis by simp
qed

lemma match_close_length: "match_close s = Some r \<Longrightarrow> length r < length s"
  by (auto simp: match_close_def split: list.splits if_splits)

lemma match_node_at_length:
  assumes "match_node_at s = Some (g, r)"
  shows "length r < length s"
proof -
  from assms obtain r1 where s: "s = CHR ''('' # r1"
    by (auto simp: match_node_at_def split: list.splits if_splits)
  from assms s obtain r3 where r3: "dropWhile is_word r1 = CHR '':'' # r3"
    by (auto simp: match_node_at_def Let_def split: list.splits if_splits)
  let ?r4 = "dropWhile is_word r3"
  have l1: "length r3 < length r1"
    using r3 length_dropWhile_le [of is_word r1] by simp
  have l2: "length ?r4 \<le> length r3"
    by (rule length_dropWhile_le)
  from assms s r3 have
    "(\<exists>p r5. match_filter_group ?r4 = Some (p, r5) \<and> match_close r5 = Some r) \<or>
     match_close ?r4 = Some r"
    by (auto simp: match_node_at_def Let_def split: list.splits if_splits option.splits)
  then have "length r < length ?r4"
    using match_filter_group_length match_close_length by (metis less_trans)
  with l1 l2 s show ?thesis by simp
qed

lemma match_rel_at_length:
  assumes "match_rel_at s = Some (ty, r)"
  shows "length r < length s"
proof -
  from assms obtain a where s: "s = CHR ''-'' # CHR ''['' # CHR '':'' # a"
    by (auto simp: match_rel_at_def split: list.splits if_splits)
  with assms have "dropWhile is_word a = CHR '']'' # CHR ''-'' # CHR ''>'' # r"
    by (auto simp: match_rel_at_def Let_def split: list.splits if_splits)
  then have "length r < length a"
    using length_dropWhile_le [of is_word a] by simp
  with s show ?thesis by simp
qed

text \<open>
  \<open>re.findall\<close>: the matches from left to right, each search starting where the last
  match ended.
\<close>

function findall_nodes :: "string \<Rightarrow> (string \<times> string \<times> string) list" where
  "findall_nodes [] = []"
| "findall_nodes (c # cs) =
     (case match_node_at (c # cs) of
        Some (groups, rest) \<Rightarrow> groups # findall_nodes rest
      | None \<Rightarrow> findall_nodes cs)"
  by pat_completeness auto
termination
  by (relation "measure length") (auto dest: match_node_at_length)

function findall_rels :: "string \<Rightarrow> string list" where
  "findall_rels [] = []"
| "findall_rels (c # cs) =
     (case match_rel_at (c # cs) of
        Some (ty, rest) \<Rightarrow> ty # findall_rels rest
      | None \<Rightarrow> findall_rels cs)"
  by pat_completeness auto
termination
  by (relation "measure length") (auto dest: match_rel_at_length)

subsection \<open>Executing a query\<close>

text \<open>
  A binding maps a variable to the record of a node, and \<open>'relationship'\<close> (or
  \<open>'result'\<close>) to a string.
\<close>

datatype bval = BNode "(string, pyval) dict" | BStr string

fun rel_loop ::
  "store \<Rightarrow> string \<Rightarrow> string \<Rightarrow> string \<Rightarrow> string \<Rightarrow> string \<Rightarrow> relationship list
     \<Rightarrow> (string, bval) dict list" where
  "rel_loop s var1 label1 var2 label2 rtype [] = []"
| "rel_loop s var1 label1 var2 label2 rtype (rel # rels) =
     (if rel_type rel \<noteq> rtype then rel_loop s var1 label1 var2 label2 rtype rels
      else (case (dict_get (nodes s) (rel_from rel), dict_get (nodes s) (rel_to rel)) of
              (Some from_node, Some to_node) \<Rightarrow>
                if label from_node = label1 \<and> label to_node = label2 then
                  dict_merge []
                    [(var1, BNode (dict_merge [(''id'', rel_from rel)] (properties from_node))),
                     (var2, BNode (dict_merge [(''id'', rel_to rel)] (properties to_node))),
                     (''relationship'', BStr (rel_type rel))]
                  # rel_loop s var1 label1 var2 label2 rtype rels
                else rel_loop s var1 label1 var2 label2 rtype rels
            | _ \<Rightarrow> rel_loop s var1 label1 var2 label2 rtype rels))"

definition execute_match :: "store \<Rightarrow> string \<Rightarrow> (string, bval) dict list" where
  "execute_match s query =
     (let nodes_match = findall_nodes query; rels_match = findall_rels query in
      case nodes_match of
        [] \<Rightarrow> []
      | (var1, label1, props1) # others \<Rightarrow>
          if length nodes_match = 1 \<and> rels_match = [] then
            (let matching_nodes =
                   map (\<lambda>(nid, n). [(var1, BNode (dict_merge [(''id'', nid)] (properties n)))])
                     (filter (\<lambda>(nid, n). label n = label1) (nodes s))
             in if props1 \<noteq> [] then
                  (let prop_filters = parse_properties props1 in
                   filter (\<lambda>n. list_all (\<lambda>(k, v).
                               (case dict_get n var1 of
                                  Some (BNode r) \<Rightarrow> dict_get r k = Some (PStr v)
                                | _ \<Rightarrow> False)) prop_filters)
                     matching_nodes)
                else matching_nodes)
          else (case (others, rels_match) of
                  ((var2, label2, props2) # _, rtype # _) \<Rightarrow>
                    rel_loop s var1 label1 var2 label2 rtype (relationships s)
                | _ \<Rightarrow> []))"

definition execute_create :: "store \<Rightarrow> string \<Rightarrow> (string, bval) dict list" where
  "execute_create s query = [[(''result'', BStr ''Created'')]]"

definition execute_cypher :: "store \<Rightarrow> string \<Rightarrow> (string, bval) dict list" where
  "execute_cypher s query0 =
     (let query = strip query0 in
      if startswith (upper query) ''MATCH'' then execute_match s query
      else if startswith (upper query) ''CREATE'' then execute_create s query
      else if startswith (upper query) ''RETURN'' then [[(''result'', BStr ''OK'')]]
      else [])"

definition demo_db :: store where
  "demo_db =
     snd (create_relationship demo_nodes (PStr ''SUP001'') (PStr ''MAT001'') ''PROVIDES'' None)"

text \<open>
  The words of a query: an identifier is a non-empty run of word characters, the text
  of an inline filter a non-empty string without a closing brace.
\<close>

definition is_identifier :: "string \<Rightarrow> bool" where
  "is_identifier w = (w \<noteq> [] \<and> list_all is_word w)"

definition filter_text :: "string \<Rightarrow> bool" where
  "filter_text p = (p \<noteq> [] \<and> CHR ''}'' \<notin> set p)"

text \<open>
  The queries of the two shapes that the comments of \<open>_execute_match\<close> give,
  \<open>MATCH (s:Supplier) RETURN s\<close> and
  \<open>MATCH (s:Supplier)-[:PROVIDES]->(m:Material) RETURN s, m\<close>; a node pattern may carry
  an inline filter, \<open>(s:Supplier {name: "Leather"})\<close>.
\<close>

definition node_pattern :: "string \<Rightarrow> string \<Rightarrow> string option \<Rightarrow> string" where
  "node_pattern v l f =
     ''('' @ v @ '':'' @ l @ (case f of None \<Rightarrow> [] | Some p \<Rightarrow> '' {'' @ p @ ''}'') @ '')''"

definition single_node_query :: "string \<Rightarrow> string \<Rightarrow> string option \<Rightarrow> string" where
  "single_node_query v l f = ''MATCH '' @ node_pattern v l f @ '' RETURN '' @ v"

definition relationship_query ::
  "string \<Rightarrow> string \<Rightarrow> string option \<Rightarrow> string \<Rightarrow> string \<Rightarrow> string \<Rightarrow> string option \<Rightarrow> string" where
  "relationship_query v1 l1 f1 t v2 l2 f2 =
     ''MATCH '' @ node_pattern v1 l1 f1 @ ''-[:'' @ t @ '']->'' @ node_pattern v2 l2 f2 @
     '' RETURN '' @ v1 @ '', '' @ v2"

definition well_formed_filter :: "string option \<Rightarrow> bool" where
  "well_formed_filter f = (case f of None \<Rightarrow> True | Some p \<Rightarrow> filter_text p)"




text \<open>
  The relationship type the engine reads off a relationship query: the first match of
  \<open>rel_pattern\<close> in the whole text, which lies in the filter of the first node pattern
  when that text has one.
\<close>

definition effective_type :: "string option \<Rightarrow> string \<Rightarrow> string" where
  "effective_type f1 t =
     (case f1 of
        None \<Rightarrow> t
      | Some p \<Rightarrow> (case findall_rels p of [] \<Rightarrow> t | x # xs \<Rightarrow> x))"

text \<open>
  The texts that \<open>execute_cypher\<close> answers from the store: those that begin with
  \<open>MATCH\<close> and in which \<open>_execute_match\<close> finds the patterns of one of its two
  branches, one node pattern and no relationship pattern, or at least two node patterns
  and a relationship pattern.
\<close>

definition keyword :: "string \<Rightarrow> string \<Rightarrow> bool" where
  "keyword kw query = startswith (upper (strip query)) kw"

definition single_node_form :: "string \<Rightarrow> bool" where
  "single_node_form query = (length (findall_nodes query) = 1 \<and> findall_rels query = [])"

definition relationship_form :: "string \<Rightarrow> bool" where
  "relationship_form query = (2 \<le> length (findall_nodes query) \<and> findall_rels query \<noteq> [])"

definition recognised :: "string \<Rightarrow> bool" where
  "recognised query =
     (keyword ''MATCH'' query \<and>
      (single_node_form (strip query) \<or> relationship_form (strip query)))"

section \<open>Dictionary facts\<close>

lemma dict_set_keys:
  "map fst (dict_set d k v) = (if k \<in> fst ` set d then map fst d else map fst d @ [k])"
  by (induction d) force+

lemma dict_get_set: "dict_get (dict_set d k v) k' = (if k' = k then Some v else dict_get d k')"
  by (induction d) (auto simp: dict_get_def)

lemma dict_contains_keys: "dict_contains d k = (k \<in> fst ` set d)"
  by (simp add: dict_contains_def dict_get_def map_of_eq_None_iff)

lemma wf_dict_set: "wf_dict d \<Longrightarrow> wf_dict (dict_set d k v)"
  by (simp add: wf_dict_def dict_set_keys)

lemma dict_set_count:
  "distinct (map fst d) \<Longrightarrow> length (filter (\<lambda>kv. fst kv = k) (dict_set d k v)) = 1"
proof (induction d)
  case Nil
  then show ?case by simp
next
  case (Cons a d)
  obtain k' v' where a: "a = (k', v')" by (cases a)
  show ?case
  proof (cases "k' = k")
    case True
    with Cons.prems a have "k \<notin> fst ` set d" by simp
    then have "filter (\<lambda>kv. fst kv = k) d = []"
      by (auto simp: filter_empty_conv)
    with True a show ?thesis by simp
  next
    case False
    with Cons a show ?thesis by simp
  qed
qed

lemma demo_nodes_eq:
  "demo_nodes =
     \<lparr>nodes =
        [(PStr ''SUP001'',
          \<lparr>label = ''Supplier'',
           properties = [(''id'', PStr ''SUP001''), (''name'', PStr ''Tuscany Leather Co.''),
                         (''location'', PStr ''Florence, Italy'')]\<rparr>),
         (PStr ''MAT001'',
          \<lparr>label = ''Material'',
           properties = [(''id'', PStr ''MAT001''), (''name'', PStr ''Premium Calf Leather''),
                         (''type'', PStr ''Leather'')]\<rparr>)],
      relationships = [], node_counter = 2\<rparr>"
  by (simp add: demo_nodes_def create_node_def init_def dict_get_def Let_def)

section \<open>Creating relationships\<close>

text \<open>
  C1. A call of \<open>create_relationship\<close> with an endpoint that is not a key of the node
  map fails with an error and leaves the store, so its relationship list, as it was;
  with both endpoints present it succeeds and appends exactly one record
  \<open>{from, to, type, properties}\<close> to the relationship list.
\<close>

theorem create_relationship_atomic:
  "(\<not> dict_contains (nodes s) f \<or> \<not> dict_contains (nodes s) t \<longrightarrow>
      (\<exists>e. fst (create_relationship s f t ty p) = Inl e) \<and>
      relationships (snd (create_relationship s f t ty p)) = relationships s \<and>
      snd (create_relationship s f t ty p) = s) \<and>
   (dict_contains (nodes s) f \<and> dict_contains (nodes s) t \<longrightarrow>
      fst (create_relationship s f t ty p) = Inr () \<and>
      relationships (snd (create_relationship s f t ty p)) =
        relationships s @
          [\<lparr>rel_from = f, rel_to = t, rel_type = ty,
            rel_properties = (case p of None \<Rightarrow> [] | Some d \<Rightarrow> d)\<rparr>] \<and>
      length (relationships (snd (create_relationship s f t ty p))) =
        Suc (length (relationships s)) \<and>
      nodes (snd (create_relationship s f t ty p)) = nodes s)"
  by (auto simp: create_relationship_def split: option.splits)

theorem create_relationship_atomic_witness:
  "fst (create_relationship demo_nodes (PStr ''SUP001'') (PStr ''MAT001'') ''PROVIDES'' None)
     = Inr () \<and>
   relationships
     (snd (create_relationship demo_nodes (PStr ''SUP001'') (PStr ''MAT001'') ''PROVIDES'' None))
     = [\<lparr>rel_from = PStr ''SUP001'', rel_to = PStr ''MAT001'', rel_type = ''PROVIDES'',
         rel_properties = []\<rparr>] \<and>
   (\<exists>e. fst (create_relationship demo_nodes (PStr ''SUP001'') (PStr ''MAT999'') ''PROVIDES'' None)
      = Inl e) \<and>
   relationships
     (snd (create_relationship demo_nodes (PStr ''SUP001'') (PStr ''MAT999'') ''PROVIDES'' None))
     = []"
  using create_relationship_atomic [of demo_nodes "PStr ''SUP001''" "PStr ''MAT001''" "''PROVIDES''" None]
    create_relationship_atomic [of demo_nodes "PStr ''SUP001''" "PStr ''MAT999''" "''PROVIDES''" None]
  by (simp add: demo_nodes_eq dict_contains_keys)

section \<open>Creating nodes\<close>

text \<open>
  C6. \<open>create_node\<close> with properties whose \<open>'id'\<close> is the id of a node of the store
  replaces that node: the call returns the id, the node map has exactly one item with
  that id, at the place of the old one, with the new label and the new properties and
  nothing of the old node; the other nodes and the relationships are as before.
\<close>

theorem create_node_overwrites:
  assumes "wf_dict (nodes s)"
    and "dict_get props ''id'' = Some nid"
    and "dict_contains (nodes s) nid"
  shows "fst (create_node s lbl props) = nid \<and>
         length (filter (\<lambda>kv. fst kv = nid) (nodes (snd (create_node s lbl props)))) = 1 \<and>
         dict_get (nodes (snd (create_node s lbl props))) nid
           = Some \<lparr>label = lbl, properties = props\<rparr> \<and>
         map fst (nodes (snd (create_node s lbl props))) = map fst (nodes s) \<and>
         (\<forall>k. k \<noteq> nid \<longrightarrow>
            dict_get (nodes (snd (create_node s lbl props))) k = dict_get (nodes s) k) \<and>
         relationships (snd (create_node s lbl props)) = relationships s"
  using assms
  by (simp add: create_node_def Let_def dict_get_set dict_set_keys dict_contains_keys
      dict_set_count wf_dict_def)

theorem create_node_overwrites_witness:
  "fst (create_node demo_nodes ''Factory'' [(''id'', PStr ''SUP001''), (''city'', PStr ''Milan'')])
     = PStr ''SUP001'' \<and>
   nodes (snd (create_node demo_nodes ''Factory''
      [(''id'', PStr ''SUP001''), (''city'', PStr ''Milan'')]))
     = [(PStr ''SUP001'',
         \<lparr>label = ''Factory'',
          properties = [(''id'', PStr ''SUP001''), (''city'', PStr ''Milan'')]\<rparr>),
        (PStr ''MAT001'',
         \<lparr>label = ''Material'',
          properties = [(''id'', PStr ''MAT001''), (''name'', PStr ''Premium Calf Leather''),
                        (''type'', PStr ''Leather'')]\<rparr>)] \<and>
   dict_get (nodes (snd (create_node demo_nodes ''Factory''
      [(''id'', PStr ''SUP001''), (''city'', PStr ''Milan'')]))) (PStr ''SUP001'')
     = Some \<lparr>label = ''Factory'',
             properties = [(''id'', PStr ''SUP001''), (''city'', PStr ''Milan'')]\<rparr>"
  using create_node_overwrites [of demo_nodes "[(''id'', PStr ''SUP001''), (''city'', PStr ''Milan'')]"
      "PStr ''SUP001''" "''Factory''"]
  by (simp add: demo_nodes_eq create_node_def dict_get_def dict_contains_def wf_dict_def Let_def)

section \<open>Listing nodes\<close>

lemma dict_merge_keys:
  "fst ` set (dict_merge d e) = fst ` set d \<union> fst ` set e"
proof -
  have "set (map fst (foldl (\<lambda>acc (k, v). dict_set acc k v) d e)) = set (map fst d) \<union> set (map fst e)"
  proof (induction e arbitrary: d)
    case Nil
    then show ?case by simp
  next
    case (Cons a e)
    obtain k v where a: "a = (k, v)" by (cases a)
    have "set (map fst (dict_set d k v)) = insert k (set (map fst d))"
      by (simp add: dict_set_keys insert_absorb)
    with Cons.IH [of "dict_set d k v"] a show ?case by auto
  qed
  then show ?thesis by (simp add: dict_merge_def)
qed

lemma dict_contains_merge:
  "dict_contains (dict_merge d e) k = (dict_contains d k \<or> dict_contains e k)"
  by (simp add: dict_contains_keys dict_merge_keys)

lemma dict_contains_simps:
  "dict_contains [] k = False"
  "dict_contains ((k', v) # d) k = (k' = k \<or> dict_contains d k)"
  by (auto simp: dict_contains_def dict_get_def)

text \<open>
  C10. \<open>get_all_nodes\<close> with a non-empty label returns, for the nodes of that label in
  the order of the node map, the records \<open>{id, ...properties}\<close>: a record has a
  \<open>'label'\<close> key only if the node's own properties have one. With no label it returns,
  for every node, the record \<open>{id, label, ...properties}\<close>, which always has the key;
  the empty string as label is the call with no label.
\<close>

theorem get_all_nodes_shapes:
  assumes "l \<noteq> []"
  shows "list_all2
           (\<lambda>r (nid, n). r = dict_merge [(''id'', nid)] (properties n) \<and>
              dict_contains r ''id'' \<and>
              dict_contains r ''label'' = dict_contains (properties n) ''label'')
           (get_all_nodes s (Some l)) (filter (\<lambda>(nid, n). label n = l) (nodes s)) \<and>
         list_all2
           (\<lambda>r (nid, n). r = dict_merge [(''id'', nid), (''label'', PStr (label n))] (properties n) \<and>
              dict_contains r ''id'' \<and> dict_contains r ''label'')
           (get_all_nodes s None) (nodes s) \<and>
         get_all_nodes s (Some []) = get_all_nodes s None"
  using assms
  by (auto simp: get_all_nodes_def list_all2_map1 dict_contains_merge dict_contains_simps
      intro!: list_all2_refl)

theorem get_all_nodes_shapes_witness:
  "get_all_nodes demo_nodes (Some ''Supplier'')
     = [[(''id'', PStr ''SUP001''), (''name'', PStr ''Tuscany Leather Co.''),
         (''location'', PStr ''Florence, Italy'')]] \<and>
   get_all_nodes demo_nodes None
     = [[(''id'', PStr ''SUP001''), (''label'', PStr ''Supplier''),
         (''name'', PStr ''Tuscany Leather Co.''), (''location'', PStr ''Florence, Italy'')],
        [(''id'', PStr ''MAT001''), (''label'', PStr ''Material''),
         (''name'', PStr ''Premium Calf Leather''), (''type'', PStr ''Leather'')]]"
  using get_all_nodes_shapes [of "''Supplier''" demo_nodes]
  by (simp add: get_all_nodes_def demo_nodes_eq dict_merge_def dict_contains_def dict_get_def)

text \<open>
  With the empty string as the label argument the test \<open>if label:\<close> fails, and the
  call returns the records of all nodes, with their \<open>'label'\<close> key.
\<close>

theorem get_all_nodes_empty_label_counterexample:
  "get_all_nodes demo_nodes (Some [])
     = [[(''id'', PStr ''SUP001''), (''label'', PStr ''Supplier''),
         (''name'', PStr ''Tuscany Leather Co.''), (''location'', PStr ''Florence, Italy'')],
        [(''id'', PStr ''MAT001''), (''label'', PStr ''Material''),
         (''name'', PStr ''Premium Calf Leather''), (''type'', PStr ''Leather'')]] \<and>
   dict_contains (hd (get_all_nodes demo_nodes (Some []))) ''label'' \<and>
   \<not> dict_contains (properties (snd (hd (nodes demo_nodes)))) ''label''"
  by (simp add: get_all_nodes_def demo_nodes_eq dict_merge_def dict_contains_def dict_get_def)

section \<open>The provenance trace\<close>

lemma unique_suppliers_keys:
  "(\<lambda>x. dict_get x ''id'') ` set (unique_suppliers seen xs)
     = (\<lambda>x. dict_get x ''id'') ` set xs - set seen"
  by (induction xs arbitrary: seen) (auto simp: Let_def)

lemma unique_suppliers_distinct:
  "distinct (map (\<lambda>x. dict_get x ''id'') (unique_suppliers seen xs))"
proof (induction xs arbitrary: seen)
  case Nil
  then show ?case by simp
next
  case (Cons x xs)
  have "dict_get x ''id'' \<notin> (\<lambda>x. dict_get x ''id'') ` set (unique_suppliers (dict_get x ''id'' # seen) xs)"
    by (simp add: unique_suppliers_keys)
  with Cons.IH show ?case by (simp add: Let_def)
qed

lemma unique_suppliers_first_occurrences:
  "unique_suppliers seen xs =
     map (\<lambda>i. xs ! i)
       (filter (\<lambda>i. dict_get (xs ! i) ''id'' \<notin> set seen \<union> (\<lambda>x. dict_get x ''id'') ` set (take i xs))
          [0..<length xs])"
proof (induction xs arbitrary: seen)
  case Nil
  then show ?case by simp
next
  case (Cons x xs)
  have upt: "[0..<length (x # xs)] = 0 # map Suc [0..<length xs]"
    by (simp add: upt_conv_Cons map_Suc_upt del: upt_Suc)
  show ?case
  proof (cases "dict_get x ''id'' \<in> set seen")
    case True
    then have "insert (dict_get x ''id'') (set seen) = set seen" by auto
    have "filter (\<lambda>i. dict_get (xs ! i) ''id'' \<notin> set seen \<and>
                dict_get (xs ! i) ''id'' \<noteq> dict_get x ''id'' \<and>
                dict_get (xs ! i) ''id'' \<notin> (\<lambda>x. dict_get x ''id'') ` set (take i xs))
            [0..<length xs]
        = filter (\<lambda>i. dict_get (xs ! i) ''id'' \<notin> set seen \<and>
                dict_get (xs ! i) ''id'' \<notin> (\<lambda>x. dict_get x ''id'') ` set (take i xs))
            [0..<length xs]"
      using True by (intro filter_cong) auto
    with True Cons.IH [of seen] show ?thesis
      unfolding upt
      by (simp add: filter_map comp_def Let_def)
  next
    case False
    with Cons.IH [of "dict_get x ''id'' # seen"] show ?thesis
      unfolding upt
      by (simp add: filter_map comp_def Let_def conj_ac)
  qed
qed

lemma distinct_filter_one:
  "distinct (map f ys) \<Longrightarrow> f x \<in> f ` set ys \<Longrightarrow> length (filter (\<lambda>y. f y = f x) ys) = 1"
proof (induction ys)
  case Nil
  then show ?case by simp
next
  case (Cons y ys)
  show ?case
  proof (cases "f y = f x")
    case True
    with Cons.prems have "f x \<notin> f ` set ys" by simp
    then have "filter (\<lambda>y. f y = f x) ys = []"
      unfolding filter_empty_conv by (metis imageI)
    with True show ?thesis by simp
  next
    case False
    with Cons show ?thesis by auto
  qed
qed

lemma material_suppliers_info:
  "material_suppliers (dict_set d ''suppliers'' (SupplierList l)) = l"
  by (simp add: material_suppliers_def dict_get_set)

lemma material_loop_suppliers:
  "suppliers t = concat (map material_suppliers (materials t)) \<Longrightarrow>
   suppliers (material_loop s fid rels t)
     = concat (map material_suppliers (materials (material_loop s fid rels t)))"
  by (induction rels arbitrary: t)
     (auto simp: Let_def material_suppliers_info split: option.splits)

lemma factory_loop_fields:
  "materials (factory_loop s pid rels t) = materials t \<and>
   suppliers (factory_loop s pid rels t) = suppliers t \<and>
   product (factory_loop s pid rels t) = product t"
  by (induction rels arbitrary: t) (auto split: option.splits)

lemma trace_flat:
  assumes "trace_supply_chain s pid = TraceRecord t"
  shows "suppliers t = unique_suppliers [] (concat (map material_suppliers (materials t)))"
proof -
  obtain pn where pn: "dict_get (nodes s) pid = Some pn"
    using assms by (auto simp: trace_supply_chain_def split: option.splits)
  define t0 where "t0 = \<lparr>product = properties pn, factory = None, materials = [],
                     suppliers = [], certifications = []\<rparr>"
  define t1 where "t1 = factory_loop s pid (relationships s) t0"
  have t1: "suppliers t1 = concat (map material_suppliers (materials t1))"
    by (simp add: t1_def factory_loop_fields t0_def)
  show ?thesis
    using assms pn t1 material_loop_suppliers [OF t1]
    by (auto simp: trace_supply_chain_def Let_def t1_def t0_def split: option.splits if_splits)
qed


text \<open>
  What the last loop does in every trace: the aggregate is the flattened per-material
  supplier lists with only the first entry of each value of \<open>supplier.get('id')\<close>
  kept. The key is the \<open>'id'\<close> property of the entry, not the node id: entries
  without the property all have the key \<open>None\<close>.
\<close>

lemma trace_suppliers_first_by_id_property:
  assumes "trace_supply_chain s pid = TraceRecord t"
  shows "distinct (map (\<lambda>x. dict_get x ''id'') (suppliers t)) \<and>
         suppliers t = first_occurrences_spec (\<lambda>x. dict_get x ''id'')
                         (concat (map material_suppliers (materials t))) \<and>
         (\<forall>m \<in> set (materials t). \<forall>x \<in> set (material_suppliers m).
            length (filter (\<lambda>y. dict_get y ''id'' = dict_get x ''id'') (suppliers t)) = 1)"
proof -
  let ?key = "\<lambda>x. dict_get x ''id''"
  let ?flat = "concat (map material_suppliers (materials t))"
  have flat: "suppliers t = unique_suppliers [] ?flat"
    using assms by (rule trace_flat)
  have d: "distinct (map ?key (suppliers t))"
    by (simp add: flat unique_suppliers_distinct)
  have f: "suppliers t = first_occurrences_spec ?key ?flat"
    by (simp add: flat first_occurrences_spec_def unique_suppliers_first_occurrences)
  have "length (filter (\<lambda>y. ?key y = ?key x) (suppliers t)) = 1"
    if "m \<in> set (materials t)" "x \<in> set (material_suppliers m)" for m x
  proof -
    from that have "x \<in> set ?flat" by auto
    then have "?key x \<in> ?key ` set (suppliers t)"
      by (simp add: flat unique_suppliers_keys)
    with d show ?thesis by (rule distinct_filter_one)
  qed
  with d f show ?thesis by blast
qed

lemma shared_supplier_trace_eq:
  "trace_supply_chain shared_supplier (PStr ''PROD001'') = TraceRecord shared_supplier_trace"
  by (simp add: trace_supply_chain_def shared_supplier_def shared_supplier_trace_def
      mk_node_def edge_def dict_get_def Let_def)

text \<open>
  With the seed data's convention, every node carrying its id among its properties, a
  supplier of two materials is once in the aggregate and in both materials' lists.
\<close>

lemma shared_supplier_aggregate:
  "trace_supply_chain shared_supplier (PStr ''PROD001'') = TraceRecord shared_supplier_trace \<and>
   suppliers shared_supplier_trace
     = [[(''id'', PStr ''SUP001''), (''name'', PStr ''Tuscany Leather'')]] \<and>
   map material_suppliers (materials shared_supplier_trace)
     = [[[(''id'', PStr ''SUP001''), (''name'', PStr ''Tuscany Leather'')]],
        [[(''id'', PStr ''SUP001''), (''name'', PStr ''Tuscany Leather'')]]] \<and>
   length (certifications shared_supplier_trace) = 2"
  by (simp add: shared_supplier_trace_eq)
     (simp add: shared_supplier_trace_def material_suppliers_def dict_get_def)

text \<open>
  C7. Two suppliers were created without an \<open>'id'\<close> property, so their node ids are
  \<open>Supplier_0\<close> and \<open>Supplier_1\<close>. The second provides both materials of the
  factory and stands in both materials' own supplier lists, yet the aggregate holds the
  first supplier alone: the loop that removes duplicates reads \<open>supplier.get('id')\<close>
  of the properties, which is \<open>None\<close> for both, and drops the second as a duplicate
  of the first.
\<close>

theorem trace_suppliers_without_id:
  "trace_supply_chain unnamed_suppliers (PStr ''PROD001'') =
     TraceRecord
       \<lparr>product = [(''id'', PStr ''PROD001''), (''name'', PStr ''Handbag'')],
        factory = Some [(''id'', PStr ''FAC001''), (''name'', PStr ''Milan Atelier'')],
        materials =
          [[(''id'', Scalar (PStr ''MAT001'')), (''name'', Scalar (PStr ''Calf Leather'')),
            (''suppliers'', SupplierList [[(''name'', PStr ''Alpha'')], [(''name'', PStr ''Beta'')]])],
           [(''id'', Scalar (PStr ''MAT002'')), (''name'', Scalar (PStr ''Lamb Leather'')),
            (''suppliers'', SupplierList [[(''name'', PStr ''Beta'')]])]],
        suppliers = [[(''name'', PStr ''Alpha'')]],
        certifications = []\<rparr> \<and>
   dict_get (nodes unnamed_suppliers) (PStr ''Supplier_1'')
     = Some \<lparr>label = ''Supplier'', properties = [(''name'', PStr ''Beta'')]\<rparr>"
  by code_simp

text \<open>
  C8. For a product id that is not a key of the node map the trace is the error record
  \<open>{"error": "Product <id> not found"}\<close>; every trace of a product that is in a
  store is a trace record, so differs from it, and so does the empty trace
  \<open>{product, factory: null, materials: [], suppliers: [], certifications: []}\<close>.
\<close>

theorem trace_not_found_distinguishable:
  assumes "\<not> dict_contains (nodes s) pid"
  shows "trace_supply_chain s pid = ErrorRecord (''Product '' @ py_str pid @ '' not found'') \<and>
         (\<forall>s' pid'. dict_contains (nodes s') pid' \<longrightarrow>
            (\<exists>t. trace_supply_chain s' pid' = TraceRecord t) \<and>
            trace_supply_chain s' pid' \<noteq> trace_supply_chain s pid) \<and>
         (\<forall>p. trace_supply_chain s pid \<noteq>
            TraceRecord \<lparr>product = p, factory = None, materials = [], suppliers = [],
                          certifications = []\<rparr>)"
  using assms
  by (auto simp: trace_supply_chain_def dict_contains_def Let_def split: option.splits)

theorem trace_not_found_distinguishable_witness:
  "trace_supply_chain shared_supplier (PStr ''PROD009'') = ErrorRecord ''Product PROD009 not found'' \<and>
   trace_supply_chain shared_supplier (PStr ''PROD002'')
     = TraceRecord \<lparr>product = [(''id'', PStr ''PROD002''), (''name'', PStr ''Wallet'')],
                     factory = None, materials = [], suppliers = [], certifications = []\<rparr> \<and>
   trace_supply_chain shared_supplier (PStr ''PROD002'')
     \<noteq> trace_supply_chain shared_supplier (PStr ''PROD009'')"
  using trace_not_found_distinguishable [of shared_supplier "PStr ''PROD009''"]
  by (simp add: trace_supply_chain_def shared_supplier_def mk_node_def edge_def dict_get_def
      dict_contains_def Let_def)

text \<open>
  C2. Two factories manufacture the same product. The factory of the trace is the one of
  the last MANUFACTURES relationship, the certifications are those of both factories, and
  the materials are those of the first: the first loop has no \<open>break\<close>, the second has.
\<close>

theorem trace_two_factories:
  "trace_supply_chain two_factories (PStr ''PROD001'') =
     TraceRecord
       \<lparr>product = [(''id'', PStr ''PROD001''), (''name'', PStr ''Handbag'')],
        factory = Some [(''id'', PStr ''FAC002''), (''name'', PStr ''Como Works'')],
        materials =
          [[(''id'', Scalar (PStr ''MAT001'')), (''name'', Scalar (PStr ''Calf Leather'')),
            (''suppliers'', SupplierList [])]],
        suppliers = [],
        certifications =
          [[(''id'', PStr ''CERT001''), (''name'', PStr ''ISO 9001'')],
           [(''id'', PStr ''CERT002''), (''name'', PStr ''ISO 14001'')]]\<rparr> \<and>
   find_factory_id (PStr ''PROD001'') (relationships two_factories) = Some (PStr ''FAC001'')"
  by (simp add: trace_supply_chain_def two_factories_def mk_node_def edge_def dict_get_def Let_def)

text \<open>A product no factory manufactures has the empty trace.\<close>

lemma factory_loop_none:
  "find_factory_id pid rels = None \<Longrightarrow> factory_loop s pid rels t = t"
  by (induction rels arbitrary: t) (auto split: if_splits)

lemma trace_without_manufacturer:
  assumes "dict_get (nodes s) pid = Some pn"
    and "find_factory_id pid (relationships s) = None"
  shows "trace_supply_chain s pid =
           TraceRecord \<lparr>product = properties pn, factory = None, materials = [],
                         suppliers = [], certifications = []\<rparr>"
  using assms by (simp add: trace_supply_chain_def factory_loop_none Let_def)

section \<open>Export and import\<close>






























section \<open>Pattern queries\<close>

lemma not_word_chars:
  "\<not> is_word CHR ''(''" "\<not> is_word CHR '')''" "\<not> is_word CHR '':''" "\<not> is_word CHR ''{''"
  "\<not> is_word CHR ''}''" "\<not> is_word CHR '' ''" "\<not> is_word CHR ''-''" "\<not> is_word CHR ''[''"
  "\<not> is_word CHR '']''" "\<not> is_word CHR ''>''" "\<not> is_word CHR '',''"
  by (simp_all add: is_word_def)

lemma not_space_chars:
  "\<not> is_space CHR ''(''" "\<not> is_space CHR '')''" "\<not> is_space CHR ''{''" "\<not> is_space CHR ''M''"
  "is_space CHR '' ''"
  by (simp_all add: is_space_def)

lemma word_not_space: "is_word c \<Longrightarrow> \<not> is_space c"
  unfolding is_word_def is_space_def Let_def by (simp only: insert_iff empty_iff) arith

lemma identifier_chars:
  assumes "is_identifier w"
  shows "CHR ''('' \<notin> set w" "CHR ''-'' \<notin> set w" "\<forall>c \<in> set w. is_word c"
  using assms not_word_chars by (auto simp: is_identifier_def list_all_iff)

lemma word_run:
  assumes "is_identifier w" "\<not> is_word c"
  shows "takeWhile is_word (w @ c # r) = w" "dropWhile is_word (w @ c # r) = c # r"
  using assms by (simp_all add: is_identifier_def list_all_iff takeWhile_append2 dropWhile_append2)

lemma match_node_plain:
  assumes "is_identifier v" "is_identifier l"
  shows "match_node_at (''('' @ v @ '':'' @ l @ '')'' @ rest) = Some ((v, l, []), rest)"
  using assms(1,2)
  by (simp add: match_node_at_def word_run [OF assms(1)] word_run [OF assms(2)] not_word_chars
      not_space_chars match_filter_group_def match_close_def is_identifier_def)

lemma run_until:
  "c \<notin> set p \<Longrightarrow>
   takeWhile (\<lambda>x. x \<noteq> c) (p @ c # r) = p \<and> dropWhile (\<lambda>x. x \<noteq> c) (p @ c # r) = c # r"
  by (induction p) auto

lemma match_node_filtered:
  assumes "is_identifier v" "is_identifier l" "filter_text p"
  shows "match_node_at (''('' @ v @ '':'' @ l @ '' {'' @ p @ ''})'' @ rest) = Some ((v, l, p), rest)"
proof -
  have tw: "takeWhile (\<lambda>x. x \<noteq> CHR ''}'') (p @ CHR ''}'' # r) = p"
    and dw: "dropWhile (\<lambda>x. x \<noteq> CHR ''}'') (p @ CHR ''}'' # r) = CHR ''}'' # r" for r
    using assms(3) run_until [of "CHR ''}''" p r] by (simp_all add: filter_text_def)
  have "match_filter_group ('' {'' @ p @ ''})'' @ rest) = Some (p, '')'' @ rest)"
    using assms(3) by (simp add: match_filter_group_def not_space_chars tw dw filter_text_def)
  then show ?thesis
    using assms(1,2)
    by (simp add: match_node_at_def word_run [OF assms(1)] word_run [OF assms(2)] not_word_chars
        match_close_def is_identifier_def)
qed

lemma match_node_at_head: "CHR ''('' \<noteq> c \<Longrightarrow> match_node_at (c # cs) = None"
  by (auto simp: match_node_at_def)

lemma match_rel_at_head: "CHR ''-'' \<noteq> c \<Longrightarrow> match_rel_at (c # cs) = None"
  by (auto simp: match_rel_at_def split: list.split)

lemma findall_nodes_skip:
  "CHR ''('' \<notin> set xs \<Longrightarrow> findall_nodes (xs @ ys) = findall_nodes ys"
  by (induction xs) (simp_all add: match_node_at_head)

lemma findall_nodes_none: "CHR ''('' \<notin> set xs \<Longrightarrow> findall_nodes xs = []"
  using findall_nodes_skip [of xs "[]"] by simp

lemma findall_rels_skip:
  "CHR ''-'' \<notin> set xs \<Longrightarrow> findall_rels (xs @ ys) = findall_rels ys"
  by (induction xs) (simp_all add: match_rel_at_head)

lemma findall_rels_none: "CHR ''-'' \<notin> set xs \<Longrightarrow> findall_rels xs = []"
  using findall_rels_skip [of xs "[]"] by simp

lemma match_rel_plain:
  assumes "is_identifier t"
  shows "match_rel_at (''-[:'' @ t @ '']->'' @ rest) = Some (t, rest)"
  using assms
  by (simp add: match_rel_at_def word_run [OF assms] not_word_chars is_identifier_def)

lemma strip_id:
  assumes "s \<noteq> []" "\<not> is_space (hd s)" "\<not> is_space (last s)"
  shows "strip s = s"
proof -
  from assms(1,2) have a: "dropWhile is_space s = s" by (cases s) auto
  from assms(1,3) have "dropWhile is_space (rev s) = rev s"
    by (cases "rev s") (auto simp: hd_rev)
  with a show ?thesis by (simp add: strip_def)
qed

lemma upper_match: "startswith (upper (''MATCH'' @ rest)) ''MATCH''"
  by (simp add: startswith_def upper_def upper_char_def)

lemma word_run_stop:
  "\<not> is_word c \<Longrightarrow>
   takeWhile is_word (xs @ c # ys) = takeWhile is_word xs \<and>
   dropWhile is_word (xs @ c # ys) = dropWhile is_word xs @ c # ys"
  by (induction xs) auto

lemma rel_close_brace:
  "(case d @ CHR ''}'' # ys of
      d1 # d2 # d3 # r' \<Rightarrow>
        if d1 = CHR '']'' \<and> d2 = CHR ''-'' \<and> d3 = CHR ''>'' then Some (ty, r') else None
    | _ \<Rightarrow> None)
   = map_option (\<lambda>(t, r). (t, r @ CHR ''}'' # ys))
       (case d of
          d1 # d2 # d3 # r' \<Rightarrow>
            if d1 = CHR '']'' \<and> d2 = CHR ''-'' \<and> d3 = CHR ''>'' then Some (ty, r') else None
        | _ \<Rightarrow> None)"
proof (cases d)
  case Nil
  then show ?thesis by (simp split: list.split)
next
  case (Cons d1 e)
  show ?thesis
  proof (cases e)
    case Nil
    with Cons show ?thesis by (simp split: list.split)
  next
    case (Cons d2 f)
    with \<open>d = d1 # e\<close> show ?thesis by (cases f) (simp_all split: list.split)
  qed
qed

lemma match_rel_at_brace:
  "match_rel_at (x @ CHR ''}'' # ys)
     = map_option (\<lambda>(t, r). (t, r @ CHR ''}'' # ys)) (match_rel_at x)"
proof (cases x)
  case Nil
  then show ?thesis by (simp add: match_rel_at_head) (simp add: match_rel_at_def)
next
  case (Cons c1 e)
  show ?thesis
  proof (cases e)
    case Nil
    with Cons show ?thesis by (simp add: match_rel_at_def split: list.split)
  next
    case (Cons c2 f)
    show ?thesis
    proof (cases f)
      case Nil
      with Cons \<open>x = c1 # e\<close> show ?thesis by (simp add: match_rel_at_def split: list.split)
    next
      case (Cons c3 r)
      have w: "takeWhile is_word (r @ CHR ''}'' # ys) = takeWhile is_word r"
        "dropWhile is_word (r @ CHR ''}'' # ys) = dropWhile is_word r @ CHR ''}'' # ys"
        using word_run_stop [of "CHR ''}''" r ys] by (simp_all add: not_word_chars)
      from Cons \<open>e = c2 # f\<close> \<open>x = c1 # e\<close> show ?thesis
        by (simp add: match_rel_at_def w rel_close_brace Let_def)
    qed
  qed
qed

lemma findall_rels_brace:
  "findall_rels (p @ CHR ''}'' # ys) = findall_rels p @ findall_rels ys"
proof (induction p rule: findall_rels.induct)
  case 1
  show ?case by (simp add: match_rel_at_head)
next
  case (2 c cs)
  show ?case
  proof (cases "match_rel_at (c # cs)")
    case None
    with 2 match_rel_at_brace [of "c # cs" ys] show ?thesis by simp
  next
    case (Some m)
    obtain ty rest where m: "m = (ty, rest)" by (cases m)
    with Some 2 match_rel_at_brace [of "c # cs" ys] show ?thesis by simp
  qed
qed

lemma node_pattern_match:
  assumes "is_identifier v" "is_identifier l" "well_formed_filter f"
  shows "match_node_at (node_pattern v l f @ rest)
           = Some ((v, l, case f of None \<Rightarrow> [] | Some p \<Rightarrow> p), rest)"
proof (cases f)
  case None
  with match_node_plain [OF assms(1,2), of rest] show ?thesis
    by (simp add: node_pattern_def)
next
  case (Some p)
  with assms(3) have "filter_text p" by (simp add: well_formed_filter_def)
  from match_node_filtered [OF assms(1,2) this, of rest] Some show ?thesis
    by (simp add: node_pattern_def)
qed

lemma node_pattern_head: "node_pattern v l f @ rest = CHR ''('' # tl (node_pattern v l f @ rest)"
  by (simp add: node_pattern_def)

lemma findall_nodes_pattern:
  assumes "is_identifier v" "is_identifier l" "well_formed_filter f"
  shows "findall_nodes (node_pattern v l f @ rest)
           = (v, l, case f of None \<Rightarrow> [] | Some p \<Rightarrow> p) # findall_nodes rest"
proof -
  obtain cs where cs: "node_pattern v l f @ rest = CHR ''('' # cs"
    using node_pattern_head by blast
  have "match_node_at (CHR ''('' # cs) = Some ((v, l, case f of None \<Rightarrow> [] | Some p \<Rightarrow> p), rest)"
    using node_pattern_match [OF assms, of rest] by (simp only: cs)
  then have "findall_nodes (CHR ''('' # cs)
               = (v, l, case f of None \<Rightarrow> [] | Some p \<Rightarrow> p) # findall_nodes rest"
    by simp
  then show ?thesis by (simp only: cs)
qed

lemma findall_nodes_relationship_query:
  assumes "is_identifier v1" "is_identifier l1" "is_identifier t" "is_identifier v2"
    "is_identifier l2" "well_formed_filter f1" "well_formed_filter f2"
  shows "findall_nodes (relationship_query v1 l1 f1 t v2 l2 f2)
           = [(v1, l1, case f1 of None \<Rightarrow> [] | Some p \<Rightarrow> p),
              (v2, l2, case f2 of None \<Rightarrow> [] | Some p \<Rightarrow> p)]"
proof -
  let ?tail = "'' RETURN '' @ v1 @ '', '' @ v2"
  let ?n2 = "node_pattern v2 l2 f2 @ ?tail"
  let ?r = "''-[:'' @ t @ '']->''"
  have tail: "findall_nodes ?tail = []"
    using identifier_chars(1) [OF assms(1)] identifier_chars(1) [OF assms(4)]
    by (intro findall_nodes_none) simp
  have r: "findall_nodes (?r @ ?n2) = findall_nodes ?n2"
    using identifier_chars(1) [OF assms(3)] by (intro findall_nodes_skip) simp
  have m: "findall_nodes (''MATCH '' @ node_pattern v1 l1 f1 @ ?r @ ?n2)
             = findall_nodes (node_pattern v1 l1 f1 @ ?r @ ?n2)"
    by (intro findall_nodes_skip) simp
  have "findall_nodes (relationship_query v1 l1 f1 t v2 l2 f2)
          = findall_nodes (''MATCH '' @ node_pattern v1 l1 f1 @ ?r @ ?n2)"
    by (simp add: relationship_query_def)
  also have "\<dots> = findall_nodes (node_pattern v1 l1 f1 @ ?r @ ?n2)" by (rule m)
  also have "\<dots> = (v1, l1, case f1 of None \<Rightarrow> [] | Some p \<Rightarrow> p) # findall_nodes (?r @ ?n2)"
    by (rule findall_nodes_pattern [OF assms(1,2,6)])
  also have "findall_nodes (?r @ ?n2) = findall_nodes ?n2" by (rule r)
  also have "findall_nodes ?n2 = (v2, l2, case f2 of None \<Rightarrow> [] | Some p \<Rightarrow> p) # findall_nodes ?tail"
    by (rule findall_nodes_pattern [OF assms(4,5,7)])
  finally show ?thesis by (simp only: tail)
qed

lemma findall_rels_plain:
  assumes "is_identifier t"
  shows "findall_rels (''-[:'' @ t @ '']->'' @ rest) = t # findall_rels rest"
proof -
  have "match_rel_at (CHR ''-'' # ''[:'' @ t @ '']->'' @ rest) = Some (t, rest)"
    using match_rel_plain [OF assms, of rest] by simp
  then have "findall_rels (CHR ''-'' # ''[:'' @ t @ '']->'' @ rest) = t # findall_rels rest"
    by (simp only: findall_rels.simps option.case prod.case)
  then show ?thesis by simp
qed

lemma findall_rels_relationship_query:
  assumes "is_identifier v1" "is_identifier l1" "is_identifier t"
  shows "\<exists>more. findall_rels (relationship_query v1 l1 f1 t v2 l2 f2)
           = effective_type f1 t # more"
proof -
  let ?rest = "node_pattern v2 l2 f2 @ '' RETURN '' @ v1 @ '', '' @ v2"
  let ?r = "''-[:'' @ t @ '']->'' @ ?rest"
  have plain: "findall_rels ?r = t # findall_rels ?rest"
    by (rule findall_rels_plain [OF assms(3)])
  show ?thesis
  proof (cases f1)
    case None
    have "findall_rels ((''MATCH ('' @ v1 @ '':'' @ l1 @ '')'') @ ?r) = findall_rels ?r"
      using identifier_chars(2) [OF assms(1)] identifier_chars(2) [OF assms(2)]
      by (intro findall_rels_skip) simp
    with None plain show ?thesis
      by (simp add: relationship_query_def node_pattern_def effective_type_def)
  next
    case (Some p)
    have "findall_rels ((''MATCH ('' @ v1 @ '':'' @ l1 @ '' {'') @ p @ CHR ''}'' # '')'' @ ?r)
            = findall_rels (p @ CHR ''}'' # '')'' @ ?r)"
      using identifier_chars(2) [OF assms(1)] identifier_chars(2) [OF assms(2)]
      by (intro findall_rels_skip) simp
    also have "\<dots> = findall_rels p @ findall_rels ('')'' @ ?r)"
      by (rule findall_rels_brace)
    also have "findall_rels ('')'' @ ?r) = findall_rels ?r"
      by (intro findall_rels_skip) simp
    finally have "findall_rels ((''MATCH ('' @ v1 @ '':'' @ l1 @ '' {'') @ p @ CHR ''}'' # '')'' @ ?r)
                    = findall_rels p @ t # findall_rels ?rest"
      by (simp only: plain)
    with Some show ?thesis
      by (cases "findall_rels p")
         (simp_all add: relationship_query_def node_pattern_def effective_type_def)
  qed
qed

lemma strip_relationship_query:
  assumes "is_identifier v2"
  shows "strip (relationship_query v1 l1 f1 t v2 l2 f2) = relationship_query v1 l1 f1 t v2 l2 f2"
proof (rule strip_id)
  show "relationship_query v1 l1 f1 t v2 l2 f2 \<noteq> []"
    by (simp add: relationship_query_def)
  show "\<not> is_space (hd (relationship_query v1 l1 f1 t v2 l2 f2))"
    by (simp add: relationship_query_def not_space_chars)
  from assms have "v2 \<noteq> []" "is_word (last v2)"
    by (auto simp: is_identifier_def list_all_iff)
  then show "\<not> is_space (last (relationship_query v1 l1 f1 t v2 l2 f2))"
    by (simp add: relationship_query_def word_not_space)
qed






lemma findall_single_node_query:
  assumes "is_identifier v" "is_identifier l"
  shows "findall_nodes (single_node_query v l None) = [(v, l, [])]"
    and "findall_rels (single_node_query v l None) = []"
proof -
  let ?tail = "'' RETURN '' @ v"
  have wf: "well_formed_filter None" by (simp add: well_formed_filter_def)
  have tail: "findall_nodes ?tail = []"
    using identifier_chars(1) [OF assms(1)] by (intro findall_nodes_none) simp
  have "findall_nodes (''MATCH '' @ node_pattern v l None @ ?tail)
          = findall_nodes (node_pattern v l None @ ?tail)"
    by (intro findall_nodes_skip) simp
  also have "\<dots> = (v, l, []) # findall_nodes ?tail"
    using findall_nodes_pattern [OF assms wf, of ?tail] by (simp only: option.case)
  finally have "findall_nodes (''MATCH '' @ node_pattern v l None @ ?tail) = [(v, l, [])]"
    by (simp only: tail)
  then show "findall_nodes (single_node_query v l None) = [(v, l, [])]"
    by (simp only: single_node_query_def)
  show "findall_rels (single_node_query v l None) = []"
    using identifier_chars(2) [OF assms(1)] identifier_chars(2) [OF assms(2)]
    by (intro findall_rels_none) (simp add: single_node_query_def node_pattern_def)
qed

lemma strip_single_node_query:
  assumes "is_identifier v"
  shows "strip (single_node_query v l f) = single_node_query v l f"
proof (rule strip_id)
  show "single_node_query v l f \<noteq> []"
    by (simp add: single_node_query_def)
  show "\<not> is_space (hd (single_node_query v l f))"
    by (simp add: single_node_query_def not_space_chars)
  from assms have "v \<noteq> []" "is_word (last v)"
    by (auto simp: is_identifier_def list_all_iff)
  then show "\<not> is_space (last (single_node_query v l f))"
    by (simp add: single_node_query_def word_not_space)
qed

text \<open>A single-node query without a filter returns every node of the label.\<close>

lemma single_node_query_unfiltered:
  assumes "is_identifier v" "is_identifier l"
  shows "execute_cypher s (single_node_query v l None)
           = map (\<lambda>(nid, n). [(v, BNode (dict_merge [(''id'', nid)] (properties n)))])
               (filter (\<lambda>(nid, n). label n = l) (nodes s))"
proof -
  have "startswith (upper (single_node_query v l None)) ''MATCH''"
    using upper_match [of "CHR '' '' # drop 6 (single_node_query v l None)"]
    by (simp add: single_node_query_def)
  then show ?thesis
    by (simp add: execute_cypher_def strip_single_node_query [OF assms(1)] execute_match_def
        findall_single_node_query [OF assms])
qed

text \<open>The queries of the two shapes are among the texts answered from the store.\<close>

lemma supported_shapes_recognised:
  assumes "is_identifier v1" "is_identifier l1" "is_identifier t" "is_identifier v2"
    "is_identifier l2" "well_formed_filter f1" "well_formed_filter f2"
  shows "recognised (single_node_query v1 l1 None)"
    and "recognised (relationship_query v1 l1 f1 t v2 l2 f2)"
proof -
  have "startswith (upper (single_node_query v1 l1 None)) ''MATCH''"
    using upper_match [of "CHR '' '' # drop 6 (single_node_query v1 l1 None)"]
    by (simp add: single_node_query_def)
  then show "recognised (single_node_query v1 l1 None)"
    by (simp add: recognised_def keyword_def strip_single_node_query [OF assms(1)]
        single_node_form_def findall_single_node_query [OF assms(1,2)])
  let ?q = "relationship_query v1 l1 f1 t v2 l2 f2"
  obtain more where rels: "findall_rels ?q = effective_type f1 t # more"
    using findall_rels_relationship_query [OF assms(1,2,3)] by blast
  have "startswith (upper ?q) ''MATCH''"
    using upper_match [of "CHR '' '' # drop 6 ?q"] by (simp add: relationship_query_def)
  then show "recognised ?q"
    by (simp add: recognised_def keyword_def strip_relationship_query [OF assms(4)]
        relationship_form_def findall_nodes_relationship_query [OF assms] rels)
qed

lemma startswith_head: "startswith x (k # ks) \<Longrightarrow> x \<noteq> [] \<and> hd x = of_char k"
  by (cases x) (simp_all add: startswith_def)

lemma keyword_exclusive:
  "keyword ''MATCH'' q \<Longrightarrow> \<not> keyword ''CREATE'' q \<and> \<not> keyword ''RETURN'' q"
  "keyword ''CREATE'' q \<Longrightarrow> \<not> keyword ''RETURN'' q"
  unfolding keyword_def by (auto dest!: startswith_head)

lemma execute_match_other:
  assumes "\<not> single_node_form q" "\<not> relationship_form q"
  shows "execute_match s q = []"
proof (cases "findall_nodes q")
  case Nil
  then show ?thesis by (simp add: execute_match_def)
next
  case (Cons g others)
  obtain v l p where g: "g = (v, l, p)" by (cases g)
  show ?thesis
  proof (cases "findall_rels q")
    case Nil
    with Cons g assms(1) show ?thesis
      by (simp add: execute_match_def single_node_form_def split: list.split)
  next
    case (Cons ty more)
    with \<open>findall_nodes q = g # others\<close> assms(2) have "others = []"
      by (cases others) (simp_all add: relationship_form_def)
    with Cons \<open>findall_nodes q = g # others\<close> g show ?thesis
      by (simp add: execute_match_def)
  qed
qed

text \<open>
  C3. \<open>execute_cypher\<close> is a total function: no input raises. For a text that it does
  not answer from the store (one that does not begin with \<open>MATCH\<close>, or a \<open>MATCH\<close>
  text in which neither one node pattern alone nor two node patterns and a relationship
  pattern are found) the result is the empty list, except that a text beginning with
  \<open>CREATE\<close> gives the one record \<open>{'result': 'Created'}\<close> and a text beginning with
  \<open>RETURN\<close> the one record \<open>{'result': 'OK'}\<close>.
\<close>

theorem execute_cypher_unrecognised:
  assumes "\<not> recognised query"
  shows "execute_cypher s query =
           (if keyword ''CREATE'' query then [[(''result'', BStr ''Created'')]]
            else if keyword ''RETURN'' query then [[(''result'', BStr ''OK'')]]
            else [])"
proof (cases "keyword ''MATCH'' query")
  case True
  with assms have "\<not> single_node_form (strip query)" "\<not> relationship_form (strip query)"
    by (simp_all add: recognised_def)
  then have "execute_match s (strip query) = []" by (rule execute_match_other)
  with True keyword_exclusive(1) [OF True] show ?thesis
    by (simp add: execute_cypher_def keyword_def)
next
  case False
  then show ?thesis
    by (simp add: execute_cypher_def keyword_def execute_create_def)
qed

theorem execute_cypher_unrecognised_witness:
  "execute_cypher demo_db ''bananas'' = [] \<and>
   execute_cypher demo_db ''MATCH (s:Supplier)-[:PROVIDES*1..3]->(m:Material) RETURN s, m'' = [] \<and>
   execute_cypher demo_db ''  create (n:Supplier)'' = [[(''result'', BStr ''Created'')]]"
proof -
  have a: "\<not> recognised ''bananas''" "\<not> keyword ''CREATE'' ''bananas''"
    "\<not> keyword ''RETURN'' ''bananas''"
    by code_simp+
  have b: "\<not> recognised ''MATCH (s:Supplier)-[:PROVIDES*1..3]->(m:Material) RETURN s, m''"
    "\<not> keyword ''CREATE'' ''MATCH (s:Supplier)-[:PROVIDES*1..3]->(m:Material) RETURN s, m''"
    "\<not> keyword ''RETURN'' ''MATCH (s:Supplier)-[:PROVIDES*1..3]->(m:Material) RETURN s, m''"
    by code_simp+
  have c: "\<not> recognised ''  create (n:Supplier)''" "keyword ''CREATE'' ''  create (n:Supplier)''"
    by code_simp+
  show ?thesis
    using execute_cypher_unrecognised [OF a(1), of demo_db]
      execute_cypher_unrecognised [OF b(1), of demo_db]
      execute_cypher_unrecognised [OF c(1), of demo_db]
    by (simp only: a b c if_True if_False simp_thms)
qed

text \<open>
  Texts of none of the two shapes that do not give the empty list: a \<open>CREATE\<close> clause,
  a \<open>RETURN\<close> clause, and a \<open>MATCH\<close> with \<open>ORDER BY\<close> and \<open>LIMIT\<close>, which is answered
  as if the two were not there.
\<close>

theorem execute_cypher_unsupported_counterexample:
  "execute_cypher demo_db ''CREATE (n:Supplier)'' = [[(''result'', BStr ''Created'')]] \<and>
   execute_cypher demo_db ''RETURN 1'' = [[(''result'', BStr ''OK'')]] \<and>
   execute_cypher demo_db ''MATCH (s:Supplier) RETURN s ORDER BY s.name LIMIT 1''
     = [[(''s'', BNode [(''id'', PStr ''SUP001''), (''name'', PStr ''Tuscany Leather Co.''),
                        (''location'', PStr ''Florence, Italy'')])]]"
  by code_simp

text \<open>
  C5. The store holds one supplier, whose \<open>location\<close> is the exact string
  \<open>Florence, Italy\<close>. The query with the filter \<open>{location: "Florence, Italy"}\<close>
  returns nothing: \<open>_parse_properties\<close> splits the filter text at every comma, also at
  the one inside the quoted value, and the filter becomes \<open>location = Florence\<close>. A
  filter whose value has no comma selects the supplier.
\<close>

theorem single_node_filter_comma:
  \<open>findall_nodes ''MATCH (s:Supplier {location: "Florence, Italy"}) RETURN s''
     = [(''s'', ''Supplier'', ''location: "Florence, Italy"'')] \<and>
   parse_properties ''location: "Florence, Italy"'' = [(''location'', ''Florence'')] \<and>
   execute_cypher demo_db ''MATCH (s:Supplier {location: "Florence, Italy"}) RETURN s'' = [] \<and>
   map (\<lambda>(nid, n). dict_get (properties n) ''location'')
     (filter (\<lambda>(nid, n). label n = ''Supplier'') (nodes demo_db))
     = [Some (PStr ''Florence, Italy'')] \<and>
   execute_cypher demo_db ''MATCH (s:Supplier {name: "Tuscany Leather Co."}) RETURN s''
     = [[(''s'', BNode [(''id'', PStr ''SUP001''), (''name'', PStr ''Tuscany Leather Co.''),
                        (''location'', PStr ''Florence, Italy'')])]]\<close>
  by code_simp

end
